theory Spec2Isabelle
  imports Main "HOL-Library.Word"
begin

unbundle bit_operations_syntax

section \<open>The utilrb native extension (ext/utilrb/utilrb.cc)\<close>

text \<open>
  The unit is a registration shim of three C functions: \<open>kernel_is_immediate\<close>,
  \<open>kernel_crash\<close> and the entry point \<open>Init_utilrb\<close>. Everything else it names comes
  from \<open>ruby.h\<close> or from the sibling unit that holds \<open>Init_value_set\<close>; neither is part
  of the file, so both are parameters of the development (the record \<open>env\<close> below).
\<close>

subsection \<open>Data\<close>

text \<open>
  \<open>VALUE\<close> is the interpreter's reference word (\<open>unsigned long\<close>), an address is a
  machine word and a C \<open>int\<close> has 32 bits; the widths are those of an LP64 target.
\<close>

type_synonym VALUE = "64 word"
type_synonym addr = "64 word"
type_synonym c_int = "32 word"

text \<open>
  The two static functions of the unit, as the function pointers that
  \<open>RUBY_METHOD_FUNC\<close> hands to the interpreter.
\<close>

datatype cfunc = Fn_kernel_is_immediate | Fn_kernel_crash

text \<open>
  A call that leaves the unit, with its arguments: the interpreter's
  \<open>rb_define_module\<close> and \<open>rb_define_singleton_method\<close>, and the sibling unit's
  \<open>Init_value_set\<close>.
\<close>

datatype extern_call =
    Rb_define_module string
  | Rb_define_singleton_method VALUE string cfunc int
  | Call_Init_value_set

text \<open>
  The signals that kill the process: a memory-access fault, with the address whose
  access raised it, and the illegal-instruction signal that a trap instruction raises.
\<close>

datatype signal = SIGSEGV addr | SIGILL

text \<open>
  The store through the null pointer constant has no defined behaviour in C++, so what
  it does is the compiler's choice. Two translations by GCC are covered: the store as
  written (no optimisation), and the isolated erroneous path of the optimising levels,
  a store of zero to address zero followed by a trap instruction.
\<close>

datatype codegen = Store_as_written | Isolate_and_trap

text \<open>
  What the unit links against. \<open>IMMEDIATE_P\<close> is a macro whose value is tested by
  the conditional operator, so it is a word here and C truth is \<open>\<noteq> 0\<close>. \<open>Qtrue\<close>,
  \<open>Qfalse\<close> and \<open>Qnil\<close> are the interpreter's constants, \<open>rb_mKernel\<close> its handle of
  the Kernel module. The three functions act on the interpreter's own state \<open>'h\<close>;
  a run in which one of them raises instead of returning is outside this development.
\<close>

record 'h env =
  IMMEDIATE_P :: "VALUE \<Rightarrow> VALUE"
  Qtrue :: VALUE
  Qfalse :: VALUE
  Qnil :: VALUE
  rb_mKernel :: VALUE
  rb_define_module :: "string \<Rightarrow> 'h \<Rightarrow> VALUE \<times> 'h"
  rb_define_singleton_method :: "VALUE \<Rightarrow> string \<Rightarrow> cfunc \<Rightarrow> int \<Rightarrow> 'h \<Rightarrow> 'h"
  Init_value_set :: "'h \<Rightarrow> 'h"

text \<open>
  The hosting process: the unit's only global (\<open>static VALUE mUtilrb\<close>), the
  \<open>int\<close> cells of the address space that are mapped writable, the interpreter's
  state, and the calls that have left the unit so far, oldest first.
\<close>

record 'h process =
  mUtilrb :: VALUE
  memory :: "addr \<rightharpoonup> c_int"
  interp :: 'h
  calls :: "extern_call list"

subsection \<open>Execution\<close>

text \<open>
  A C function either returns a value in a new process state, or the process is
  killed by a signal.
\<close>

type_synonym ('a, 'h) exec = "'h process \<Rightarrow> signal + 'a \<times> 'h process"

definition ret :: "'a \<Rightarrow> ('a, 'h) exec" where
  "ret v p = Inr (v, p)"

definition seq :: "('a, 'h) exec \<Rightarrow> ('a \<Rightarrow> ('b, 'h) exec) \<Rightarrow> ('b, 'h) exec" where
  "seq m f p = (case m p of Inl s \<Rightarrow> Inl s | Inr (v, p') \<Rightarrow> f v p')"

text \<open>The value handed back to the caller, if the function returns at all.\<close>

definition returned :: "signal + 'a \<times> 'p \<Rightarrow> 'a option" where
  "returned r = (case r of Inl s \<Rightarrow> None | Inr (v, p) \<Rightarrow> Some v)"

definition c_true :: "'a::len word \<Rightarrow> bool" where
  "c_true w = (w \<noteq> 0)"

text \<open>
  A store of an \<open>int\<close> through a pointer: it faults on an address that is not
  mapped writable and overwrites the cell otherwise.
\<close>

definition store_int :: "addr \<Rightarrow> c_int \<Rightarrow> (unit, 'h) exec" where
  "store_int a v p =
     (case memory p a of
        None \<Rightarrow> Inl (SIGSEGV a)
      | Some old \<Rightarrow> Inr ((), p\<lparr>memory := (memory p)(a \<mapsto> v)\<rparr>))"

definition trap :: "('a, 'h) exec" where
  "trap p = Inl SIGILL"

text \<open>The statement \<^verbatim>\<open>*((int*)0) = v;\<close> under either translation.\<close>

definition null_store :: "codegen \<Rightarrow> c_int \<Rightarrow> (unit, 'h) exec" where
  "null_store g v =
     (case g of
        Store_as_written \<Rightarrow> store_int 0 v
      | Isolate_and_trap \<Rightarrow> seq (store_int 0 0) (\<lambda>u. trap))"

text \<open>A call out of the unit: it is recorded, and its callee runs on the interpreter.\<close>

definition extern :: "extern_call \<Rightarrow> ('h \<Rightarrow> 'a \<times> 'h) \<Rightarrow> ('a, 'h) exec" where
  "extern c f p =
     (case f (interp p) of
        (v, h) \<Rightarrow> Inr (v, p\<lparr>interp := h, calls := calls p @ [c]\<rparr>))"

definition set_mUtilrb :: "VALUE \<Rightarrow> (unit, 'h) exec" where
  "set_mUtilrb v p = Inr ((), p\<lparr>mUtilrb := v\<rparr>)"

subsection \<open>The three functions\<close>

text \<open>
  \<^verbatim>\<open>static VALUE kernel_is_immediate(VALUE klass, VALUE object)
  { return IMMEDIATE_P(object) ? Qtrue : Qfalse; }\<close>
\<close>

definition kernel_is_immediate :: "'h env \<Rightarrow> VALUE \<Rightarrow> VALUE \<Rightarrow> (VALUE, 'h) exec" where
  "kernel_is_immediate E klass object =
     ret (if c_true (IMMEDIATE_P E object) then Qtrue E else Qfalse E)"

text \<open>
  \<^verbatim>\<open>static VALUE kernel_crash(VALUE klass)
  {
      *((int*)0) = 10;
      return Qfalse;
  }\<close>
\<close>

definition kernel_crash :: "codegen \<Rightarrow> 'h env \<Rightarrow> VALUE \<Rightarrow> (VALUE, 'h) exec" where
  "kernel_crash g E klass = seq (null_store g 10) (\<lambda>u. ret (Qfalse E))"

text \<open>
  \<^verbatim>\<open>extern "C" void Init_utilrb()
  {
      mUtilrb = rb_define_module("Utilrb");
      rb_define_singleton_method(rb_mKernel, "crash!", RUBY_METHOD_FUNC(kernel_crash), 0);
      rb_define_singleton_method(rb_mKernel, "immediate?", RUBY_METHOD_FUNC(kernel_is_immediate), 1);
      Init_value_set();
  }\<close>
\<close>

definition Init_utilrb :: "'h env \<Rightarrow> (unit, 'h) exec" where
  "Init_utilrb E =
     seq (extern (Rb_define_module ''Utilrb'') (rb_define_module E ''Utilrb''))
       (\<lambda>m.
     seq (set_mUtilrb m)
       (\<lambda>u.
     seq (extern (Rb_define_singleton_method (rb_mKernel E) ''crash!'' Fn_kernel_crash 0)
            (\<lambda>h. ((), rb_define_singleton_method E (rb_mKernel E) ''crash!'' Fn_kernel_crash 0 h)))
       (\<lambda>u.
     seq (extern (Rb_define_singleton_method (rb_mKernel E) ''immediate?'' Fn_kernel_is_immediate 1)
            (\<lambda>h. ((), rb_define_singleton_method E (rb_mKernel E) ''immediate?''
                         Fn_kernel_is_immediate 1 h)))
       (\<lambda>u.
     extern Call_Init_value_set (\<lambda>h. ((), Init_value_set E h))))))"

text \<open>
  The names of the methods that a sequence of calls defines on the object \<open>m\<close>, in
  call order.
\<close>

fun methods_defined_on :: "VALUE \<Rightarrow> extern_call list \<Rightarrow> string list" where
  "methods_defined_on m [] = []"
| "methods_defined_on m (Rb_define_singleton_method recv name f argc # cs) =
     (if recv = m then name # methods_defined_on m cs else methods_defined_on m cs)"
| "methods_defined_on m (c # cs) = methods_defined_on m cs"

text \<open>The process state in which a function returned, if it returned.\<close>

definition state_after :: "signal + 'a \<times> 'p \<Rightarrow> 'p option" where
  "state_after r = (case r of Inl s \<Rightarrow> None | Inr (v, p) \<Rightarrow> Some p)"

text \<open>The methods that the recorded calls define on the module held in \<open>mUtilrb\<close>.\<close>

definition methods_on_mUtilrb :: "'h process \<Rightarrow> string list" where
  "methods_on_mUtilrb p = methods_defined_on (mUtilrb p) (calls p)"

subsection \<open>An example host\<close>

text \<open>
  A host to instantiate the theorems with. Its constants are the tagged words of the
  C Ruby 1.8 header (\<open>Qfalse = 0\<close>, \<open>Qtrue = 2\<close>, \<open>Qnil = 4\<close>, immediate mask \<open>3\<close>);
  its interpreter state is nothing but the tables that the three functions fill.
  As in the interpreter, \<open>rb_define_module\<close> hands back the module that the name
  already denotes, and creates one otherwise, in the next free slot of 40 bytes above
  \<open>0x2000\<close>.
\<close>

record tables =
  modules :: "(string \<times> VALUE) list"
  singleton_methods :: "(VALUE \<times> string \<times> cfunc \<times> int) list"
  value_set_ready :: bool

definition example_env :: "tables env" where
  "example_env =
     \<lparr>IMMEDIATE_P = (\<lambda>x. x AND 3), Qtrue = 2, Qfalse = 0, Qnil = 4, rb_mKernel = 0x1000,
      rb_define_module = (\<lambda>name h.
        (case map_of (modules h) name of
           Some m \<Rightarrow> (m, h)
         | None \<Rightarrow>
             (0x2000 + 40 * of_nat (length (modules h)),
              h\<lparr>modules := modules h @ [(name, 0x2000 + 40 * of_nat (length (modules h)))]\<rparr>))),
      rb_define_singleton_method = (\<lambda>recv name f argc h.
        h\<lparr>singleton_methods := singleton_methods h @ [(recv, name, f, argc)]\<rparr>),
      Init_value_set = (\<lambda>h. h\<lparr>value_set_ready := True\<rparr>)\<rparr>"

text \<open>A process with nothing mapped at address zero, and one with a cell there.\<close>

definition example_process :: "tables process" where
  "example_process =
     \<lparr>mUtilrb = 0, memory = Map.empty,
      interp = \<lparr>modules = [], singleton_methods = [], value_set_ready = False\<rparr>,
      calls = []\<rparr>"

definition example_process_page0 :: "tables process" where
  "example_process_page0 = example_process\<lparr>memory := [0 \<mapsto> 0]\<rparr>"

text \<open>
  A process whose script has run \<^verbatim>\<open>Utilrb = Kernel\<close> before the extension is loaded:
  the name Utilrb denotes the Kernel module.
\<close>

definition example_process_aliased :: "tables process" where
  "example_process_aliased =
     example_process
       \<lparr>interp := \<lparr>modules = [(''Utilrb'', 0x1000)], singleton_methods = [],
                    value_set_ready = False\<rparr>\<rparr>"

section \<open>Properties\<close>

subsection \<open>The inline-storage predicate\<close>

text \<open>
  C1. On every reference, \<open>kernel_is_immediate\<close> returns the interpreter's true value
  exactly when \<open>IMMEDIATE_P\<close> classifies the reference as immediate, and its false
  value exactly when it does not. The two values are told apart, as in every
  interpreter, which is the premise.
\<close>

theorem kernel_is_immediate_agrees:
  assumes "Qtrue E \<noteq> Qfalse E"
  shows "(returned (kernel_is_immediate E klass object p) = Some (Qtrue E))
           = c_true (IMMEDIATE_P E object)
       \<and> (returned (kernel_is_immediate E klass object p) = Some (Qfalse E))
           = (\<not> c_true (IMMEDIATE_P E object))"
  using assms by (simp add: kernel_is_immediate_def ret_def returned_def)

theorem kernel_is_immediate_agrees_witness:
  "Qtrue example_env \<noteq> Qfalse example_env
   \<and> c_true (IMMEDIATE_P example_env 5)
   \<and> returned (kernel_is_immediate example_env 0x1000 5 example_process)
       = Some (Qtrue example_env)
   \<and> \<not> c_true (IMMEDIATE_P example_env 0x2000)
   \<and> returned (kernel_is_immediate example_env 0x1000 0x2000 example_process)
       = Some (Qfalse example_env)"
proof -
  have d: "Qtrue example_env \<noteq> Qfalse example_env"
    by (simp add: example_env_def)
  have i: "c_true (IMMEDIATE_P example_env 5)"
    by (simp add: example_env_def c_true_def)
  have h: "\<not> c_true (IMMEDIATE_P example_env 0x2000)"
    by (simp add: example_env_def c_true_def)
  from d i h
    kernel_is_immediate_agrees [of example_env "0x1000" 5 example_process, OF d]
    kernel_is_immediate_agrees [of example_env "0x1000" "0x2000" example_process, OF d]
  show ?thesis by blast
qed

text \<open>
  C4. The value returned is the interpreter's true value or its false value, whatever
  the reference; in particular it is not nil, nil being a third value.
\<close>

theorem kernel_is_immediate_boolean:
  assumes "Qnil E \<noteq> Qtrue E" and "Qnil E \<noteq> Qfalse E"
  shows "\<exists>v. returned (kernel_is_immediate E klass object p) = Some v
             \<and> (v = Qtrue E \<or> v = Qfalse E) \<and> v \<noteq> Qnil E"
  using assms by (simp add: kernel_is_immediate_def ret_def returned_def)

theorem kernel_is_immediate_boolean_witness:
  "Qnil example_env \<noteq> Qtrue example_env \<and> Qnil example_env \<noteq> Qfalse example_env
   \<and> (\<exists>v. returned (kernel_is_immediate example_env 0x1000 4 example_process) = Some v
          \<and> (v = 2 \<or> v = 0) \<and> v \<noteq> 4)"
proof -
  have t: "Qnil example_env \<noteq> Qtrue example_env"
    by (simp add: example_env_def)
  have f: "Qnil example_env \<noteq> Qfalse example_env"
    by (simp add: example_env_def)
  have c: "Qtrue example_env = 2 \<and> Qfalse example_env = 0 \<and> Qnil example_env = 4"
    by (simp add: example_env_def)
  from kernel_is_immediate_boolean [of example_env "0x1000" 4 example_process, OF t f]
  have "\<exists>v. returned (kernel_is_immediate example_env 0x1000 4 example_process) = Some v
          \<and> (v = 2 \<or> v = 0) \<and> v \<noteq> 4"
    by (simp only: c)
  with t f show ?thesis by blast
qed

text \<open>
  C5. \<open>kernel_is_immediate\<close> returns on every reference, in every process state: no
  run of it ends in a signal.
\<close>

theorem kernel_is_immediate_total:
  "(\<exists>v p'. kernel_is_immediate E klass object p = Inr (v, p'))
   \<and> (\<forall>s. kernel_is_immediate E klass object p \<noteq> Inl s)"
  by (simp add: kernel_is_immediate_def ret_def)

text \<open>
  C6. \<open>kernel_is_immediate\<close> hands the process state back as it received it (the
  unit's global, the memory, the interpreter and the record of outgoing calls), and
  two references that \<open>IMMEDIATE_P\<close> classifies alike get the same answer.
\<close>

theorem kernel_is_immediate_pure:
  "(\<exists>v. kernel_is_immediate E klass a p = Inr (v, p))
   \<and> (c_true (IMMEDIATE_P E a) = c_true (IMMEDIATE_P E b)
        \<longrightarrow> kernel_is_immediate E klass a p = kernel_is_immediate E klass b p)"
  by (simp add: kernel_is_immediate_def ret_def)

theorem kernel_is_immediate_pure_witness:
  "c_true (IMMEDIATE_P example_env 5) = c_true (IMMEDIATE_P example_env 2)
   \<and> kernel_is_immediate example_env 0x1000 5 example_process
       = kernel_is_immediate example_env 0x1000 2 example_process
   \<and> (\<exists>v. kernel_is_immediate example_env 0x1000 5 example_process
             = Inr (v, example_process))"
proof -
  have c: "c_true (IMMEDIATE_P example_env 5) = c_true (IMMEDIATE_P example_env 2)"
    by (simp add: example_env_def c_true_def)
  from c kernel_is_immediate_pure [of example_env "0x1000" 5 example_process 2]
  show ?thesis by blast
qed

text \<open>
  C8. The receiver plays no part: with the same reference and the same process
  state, any two receivers give the same outcome.
\<close>

theorem kernel_is_immediate_receiver_independent:
  "kernel_is_immediate E klass1 object p = kernel_is_immediate E klass2 object p"
  by (simp add: kernel_is_immediate_def)

subsection \<open>The crash helper\<close>

text \<open>
  C2. \<open>kernel_crash\<close> stores through address zero before anything else, for every
  receiver and in every state. The invocation ends in a fatal signal and returns
  nothing whenever nothing is mapped writable at address zero (the memory-access
  fault at address zero, under either translation of the store) and whenever the
  compiler has isolated the null store (the trap's signal, if a cell is mapped there).
\<close>

theorem kernel_crash_faults:
  assumes "memory p 0 = None \<or> g = Isolate_and_trap"
  shows "kernel_crash g E klass p = Inl (if memory p 0 = None then SIGSEGV 0 else SIGILL)
       \<and> returned (kernel_crash g E klass p) = None"
proof (cases g)
  case Store_as_written
  with assms show ?thesis
    by (simp add: kernel_crash_def null_store_def seq_def store_int_def returned_def)
next
  case Isolate_and_trap
  then show ?thesis
    by (simp add: kernel_crash_def null_store_def seq_def store_int_def trap_def returned_def
          split: option.split)
qed

theorem kernel_crash_faults_witness:
  "memory example_process 0 = None
   \<and> kernel_crash Store_as_written example_env 0x1000 example_process = Inl (SIGSEGV 0)
   \<and> returned (kernel_crash Store_as_written example_env 0x1000 example_process) = None
   \<and> kernel_crash Isolate_and_trap example_env 0x1000 example_process = Inl (SIGSEGV 0)
   \<and> memory example_process_page0 0 = Some 0
   \<and> kernel_crash Isolate_and_trap example_env 0x1000 example_process_page0 = Inl SIGILL
   \<and> returned (kernel_crash Isolate_and_trap example_env 0x1000 example_process_page0) = None"
proof -
  have u: "memory example_process 0 = None"
    by (simp add: example_process_def)
  have m: "memory example_process_page0 0 = Some 0"
    by (simp add: example_process_page0_def)
  have a: "memory example_process 0 = None \<or> g = Isolate_and_trap" for g
    by (simp add: u)
  have b: "memory example_process_page0 0 = None \<or> Isolate_and_trap = Isolate_and_trap"
    by simp
  have c: "(if memory example_process 0 = None then SIGSEGV 0 else SIGILL) = SIGSEGV 0"
    by (simp add: u)
  have d: "(if memory example_process_page0 0 = None then SIGSEGV 0 else SIGILL) = SIGILL"
    by (simp add: m)
  from kernel_crash_faults [of example_process Store_as_written example_env "0x1000", OF a]
  have x: "kernel_crash Store_as_written example_env 0x1000 example_process = Inl (SIGSEGV 0)
       \<and> returned (kernel_crash Store_as_written example_env 0x1000 example_process) = None"
    unfolding c .
  from kernel_crash_faults [of example_process Isolate_and_trap example_env "0x1000", OF a]
  have y: "kernel_crash Isolate_and_trap example_env 0x1000 example_process = Inl (SIGSEGV 0)"
    unfolding c by (rule conjunct1)
  from kernel_crash_faults [of example_process_page0 Isolate_and_trap example_env "0x1000", OF b]
  have z: "kernel_crash Isolate_and_trap example_env 0x1000 example_process_page0 = Inl SIGILL
       \<and> returned (kernel_crash Isolate_and_trap example_env 0x1000 example_process_page0) = None"
    unfolding d .
  from u m x y z show ?thesis by blast
qed

text \<open>
  That not every invocation faults: with a cell mapped at address zero and the store
  emitted as written, \<open>kernel_crash\<close> stores 10 there and returns to its caller.
\<close>

theorem kernel_crash_faults_counterexample:
  "kernel_crash Store_as_written example_env 0x1000 example_process_page0
     = Inr (0, example_process_page0
                  \<lparr>memory := (memory example_process_page0)(0 \<mapsto> 10)\<rparr>)
   \<and> returned (kernel_crash Store_as_written example_env 0x1000 example_process_page0)
     = Some (Qfalse example_env)"
  by (simp add: kernel_crash_def null_store_def seq_def store_int_def ret_def returned_def
        example_process_page0_def example_env_def)

text \<open>
  C7. With a cell mapped writable at address zero, so that the store through it does
  not fault: where the store is emitted as written, it puts 10 in the cell, control
  reaches the \<open>return\<close> statement and \<open>kernel_crash\<close> returns the interpreter's false
  value; where the compiler has isolated the null store, the trap that follows the
  store kills the process and nothing is returned.
\<close>

theorem kernel_crash_returns_Qfalse:
  assumes "memory p 0 = Some old"
  shows "kernel_crash Store_as_written E klass p
           = Inr (Qfalse E, p\<lparr>memory := (memory p)(0 \<mapsto> 10)\<rparr>)
       \<and> kernel_crash Isolate_and_trap E klass p = Inl SIGILL"
  using assms
  by (simp add: kernel_crash_def null_store_def seq_def store_int_def ret_def trap_def)

theorem kernel_crash_returns_Qfalse_witness:
  "memory example_process_page0 0 = Some 0
   \<and> kernel_crash Store_as_written example_env 0x1000 example_process_page0
     = Inr (0, example_process_page0
                  \<lparr>memory := (memory example_process_page0)(0 \<mapsto> 10)\<rparr>)
   \<and> kernel_crash Isolate_and_trap example_env 0x1000 example_process_page0 = Inl SIGILL"
proof -
  have m: "memory example_process_page0 0 = Some 0"
    by (simp add: example_process_page0_def)
  have f: "Qfalse example_env = 0"
    by (simp add: example_env_def)
  from kernel_crash_returns_Qfalse [of example_process_page0 0 example_env "0x1000", OF m]
  have "kernel_crash Store_as_written example_env 0x1000 example_process_page0
     = Inr (0, example_process_page0
                  \<lparr>memory := (memory example_process_page0)(0 \<mapsto> 10)\<rparr>)
   \<and> kernel_crash Isolate_and_trap example_env 0x1000 example_process_page0 = Inl SIGILL"
    by (simp only: f)
  with m show ?thesis by blast
qed

text \<open>
  That a store which does not fault need not be followed by the return: with a cell
  mapped at address zero and the null store isolated, the store of zero succeeds, and
  \<open>kernel_crash\<close> ends in the trap's signal instead of returning the false value.
\<close>

theorem kernel_crash_returns_Qfalse_counterexample:
  "store_int 0 0 example_process_page0
     = Inr ((), example_process_page0
                  \<lparr>memory := (memory example_process_page0)(0 \<mapsto> 0)\<rparr>)
   \<and> kernel_crash Isolate_and_trap example_env 0x1000 example_process_page0 = Inl SIGILL
   \<and> returned (kernel_crash Isolate_and_trap example_env 0x1000 example_process_page0)
     \<noteq> Some (Qfalse example_env)"
  by (simp add: kernel_crash_def null_store_def seq_def store_int_def trap_def returned_def
        example_process_page0_def)

subsection \<open>Initialisation\<close>

text \<open>
  C3. \<open>Init_utilrb\<close> returns, and what it has done is this, in this order: it has
  called \<open>rb_define_module\<close> for the name Utilrb and kept the handle in \<open>mUtilrb\<close>,
  registered \<open>kernel_crash\<close> on Kernel as the singleton method crash! of no argument,
  registered \<open>kernel_is_immediate\<close> on Kernel as the singleton method immediate? of
  one argument, and called \<open>Init_value_set\<close>. The interpreter is in the state these
  four calls leave, each run on the state the one before left, and the record of
  outgoing calls has grown by exactly the four.
\<close>

theorem Init_utilrb_steps:
  "Init_utilrb E p =
     Inr ((), p\<lparr>mUtilrb := fst (rb_define_module E ''Utilrb'' (interp p)),
               interp :=
                 Init_value_set E
                   (rb_define_singleton_method E (rb_mKernel E) ''immediate?''
                      Fn_kernel_is_immediate 1
                      (rb_define_singleton_method E (rb_mKernel E) ''crash!'' Fn_kernel_crash 0
                         (snd (rb_define_module E ''Utilrb'' (interp p))))),
               calls := calls p @
                 [Rb_define_module ''Utilrb'',
                  Rb_define_singleton_method (rb_mKernel E) ''crash!'' Fn_kernel_crash 0,
                  Rb_define_singleton_method (rb_mKernel E) ''immediate?''
                    Fn_kernel_is_immediate 1,
                  Call_Init_value_set]\<rparr>)"
  by (simp add: Init_utilrb_def seq_def extern_def set_mUtilrb_def split: prod.split)

text \<open>
  C9. After \<open>Init_utilrb\<close>, \<open>mUtilrb\<close> holds the handle that \<open>rb_define_module\<close> gave
  for the name Utilrb, and the interpreter is in the state that this call and the three
  after it leave. The unit has made these four calls and no other; the methods it has
  defined are crash! and immediate?, both on Kernel, so that the module in \<open>mUtilrb\<close>
  has received none, unless its handle is Kernel's own, in which case it has received
  both. Apart from \<open>mUtilrb\<close>, the interpreter and the record of outgoing calls, the
  process is as it was.
\<close>

theorem Init_utilrb_frame:
  "\<exists>p'. Init_utilrb E p = Inr ((), p')
      \<and> mUtilrb p' = fst (rb_define_module E ''Utilrb'' (interp p))
      \<and> interp p' =
          Init_value_set E
            (rb_define_singleton_method E (rb_mKernel E) ''immediate?'' Fn_kernel_is_immediate 1
               (rb_define_singleton_method E (rb_mKernel E) ''crash!'' Fn_kernel_crash 0
                  (snd (rb_define_module E ''Utilrb'' (interp p)))))
      \<and> take (length (calls p)) (calls p') = calls p
      \<and> drop (length (calls p)) (calls p') =
          [Rb_define_module ''Utilrb'',
           Rb_define_singleton_method (rb_mKernel E) ''crash!'' Fn_kernel_crash 0,
           Rb_define_singleton_method (rb_mKernel E) ''immediate?'' Fn_kernel_is_immediate 1,
           Call_Init_value_set]
      \<and> methods_defined_on (rb_mKernel E) (drop (length (calls p)) (calls p'))
          = [''crash!'', ''immediate?'']
      \<and> methods_defined_on (mUtilrb p') (drop (length (calls p)) (calls p'))
          = (if mUtilrb p' = rb_mKernel E then [''crash!'', ''immediate?''] else [])
      \<and> p'\<lparr>mUtilrb := mUtilrb p, interp := interp p, calls := calls p\<rparr> = p"
proof (cases "rb_define_module E ''Utilrb'' (interp p)")
  case (Pair m h)
  then show ?thesis
    by (simp add: Init_utilrb_def seq_def extern_def set_mUtilrb_def)
qed

theorem Init_utilrb_frame_witness:
  "\<exists>p'. Init_utilrb example_env example_process = Inr ((), p')
      \<and> mUtilrb p' = 0x2000
      \<and> modules (interp p') = [(''Utilrb'', 0x2000)]
      \<and> methods_defined_on 0x1000 (calls p') = [''crash!'', ''immediate?'']
      \<and> methods_defined_on 0x2000 (calls p') = []
      \<and> memory p' = memory example_process"
proof -
  have m: "rb_define_module example_env ''Utilrb'' (interp example_process)
             = (0x2000, \<lparr>modules = [(''Utilrb'', 0x2000)], singleton_methods = [],
                          value_set_ready = False\<rparr>)"
    by (simp add: example_env_def example_process_def)
  have k: "rb_mKernel example_env = 0x1000"
    by (simp add: example_env_def)
  have e: "calls example_process = []"
    by (simp add: example_process_def)
  from Init_utilrb_frame [of example_env example_process]
  obtain p' where r: "Init_utilrb example_env example_process = Inr ((), p')"
    and s: "mUtilrb p' = 0x2000"
    and i: "interp p' =
          Init_value_set example_env
            (rb_define_singleton_method example_env 0x1000 ''immediate?'' Fn_kernel_is_immediate 1
               (rb_define_singleton_method example_env 0x1000 ''crash!'' Fn_kernel_crash 0
                  \<lparr>modules = [(''Utilrb'', 0x2000)], singleton_methods = [],
                     value_set_ready = False\<rparr>))"
    and t: "methods_defined_on 0x1000 (calls p') = [''crash!'', ''immediate?'']"
    and n: "methods_defined_on 0x2000 (calls p') = []"
    and q: "p'\<lparr>mUtilrb := mUtilrb example_process, interp := interp example_process,
              calls := calls example_process\<rparr> = example_process"
    by (auto simp add: m k e)
  from i have j: "modules (interp p') = [(''Utilrb'', 0x2000)]"
    by (simp add: example_env_def)
  from arg_cong [OF q, of memory] have "memory p' = memory example_process"
    by simp
  with r s j t n show ?thesis by blast
qed

text \<open>
  That the module can receive the methods: where the name Utilrb already denotes
  Kernel, \<open>rb_define_module\<close> hands back Kernel's handle, and after \<open>Init_utilrb\<close>
  both crash! and immediate? are defined on the module held in \<open>mUtilrb\<close>.
\<close>

theorem Init_utilrb_frame_counterexample:
  "map_option mUtilrb (state_after (Init_utilrb example_env example_process_aliased))
     = Some (rb_mKernel example_env)
   \<and> map_option methods_on_mUtilrb
       (state_after (Init_utilrb example_env example_process_aliased))
     = Some [''crash!'', ''immediate?'']"
  by (simp add: Init_utilrb_def seq_def extern_def set_mUtilrb_def state_after_def
        methods_on_mUtilrb_def example_env_def example_process_aliased_def
        example_process_def)

end
